theory Spec2Isabelle
  imports Main "HOL-Library.Word" "HOL-Library.Monad_Syntax"
begin

unbundle bit_operations_syntax

section \<open>The Vosk NIF (c_src/vosk_nif.c) as state-passing functions\<close>

text \<open>
  The file is a NIF library: twelve entry points called by the Erlang runtime, two resource
  destructors and the load callback. Everything it touches lies outside it: the runtime
  (erl_nif.h) and the recognition engine (vosk_api.h). The runtime's functions are modelled
  after their documented behaviour; the engine is a parameter, a record of arbitrary
  functions over an engine state, and every call into it is logged.

  A function of the file returns \<open>None\<close> where the C program would have no defined
  behaviour: a store outside a local array, a read of \<open>argv\<close> beyond \<open>argc\<close>, a field
  read through a pointer that is not an object of the expected struct.
\<close>

subsection \<open>Values\<close>

type_synonym byte = "8 word"
type_synonym bytes = "byte list"
type_synonym cint = "32 word" \<comment> \<open>a C \<open>int\<close>, read with \<open>sint\<close>\<close>
type_synonym double = "64 word" \<comment> \<open>the bits of a C \<open>double\<close>\<close>
type_synonym float32 = "32 word" \<comment> \<open>the bits of a C \<open>float\<close>\<close>
type_synonym ptr = nat \<comment> \<open>a \<open>VoskModel*\<close> or \<open>VoskRecognizer*\<close>\<close>

definition NULL :: ptr where
  "NULL = 0"

text \<open>Erlang terms, as far as the file inspects or builds them.\<close>

datatype eterm =
    Atom string
  | Integer int
  | Float double
  | Binary bytes
  | Resource nat \<comment> \<open>a resource term, holding the address of its resource object\<close>
  | Tuple "eterm list"
  | String_term bytes \<comment> \<open>the character list \<open>enif_make_string\<close> builds from a C string\<close>
  | Other_term \<comment> \<open>a term of any other kind: a list, a map, a pid, a fun\<close>

text \<open>What a NIF hands back: a term, or the badarg exception of \<open>enif_make_badarg\<close>.\<close>

datatype nif_return = Return eterm | Raise_badarg

text \<open>
  The two resource types of the file, named after the globals that hold them once \<open>load\<close>
  has run, and the types other NIF libraries may have registered.
\<close>

datatype rtype = MODEL_TYPE | RECOGNIZER_TYPE | FOREIGN_TYPE

text \<open>
  A resource object. \<open>ModelResource\<close> and \<open>RecognizerResource\<close> are the two structs of the
  file, each one pointer; objects of type \<open>MODEL_TYPE\<close> are allocated only as
  \<open>ModelResource\<close>, those of type \<open>RECOGNIZER_TYPE\<close> only as \<open>RecognizerResource\<close>.
\<close>

datatype resource =
    ModelResource (model: ptr)
  | RecognizerResource (recognizer: ptr)
  | ForeignResource

fun resource_type :: "resource \<Rightarrow> rtype" where
  "resource_type (ModelResource _) = MODEL_TYPE"
| "resource_type (RecognizerResource _) = RECOGNIZER_TYPE"
| "resource_type ForeignResource = FOREIGN_TYPE"

subsection \<open>The engine and the log of calls into it\<close>

text \<open>
  One constructor per function of vosk_api.h the file calls, with the arguments as passed.
  A \<open>const char*\<close> argument is logged as the memory it points to.
\<close>

datatype native_call =
    Vosk_set_log_level cint
  | Vosk_model_new bytes
  | Vosk_model_free ptr
  | Vosk_model_find_word ptr bytes
  | Vosk_recognizer_new ptr float32
  | Vosk_recognizer_free ptr
  | Vosk_recognizer_set_max_alternatives ptr cint
  | Vosk_recognizer_set_words ptr cint
  | Vosk_recognizer_set_partial_words ptr cint
  | Vosk_recognizer_accept_waveform ptr bytes cint
  | Vosk_recognizer_result ptr
  | Vosk_recognizer_partial_result ptr
  | Vosk_recognizer_final_result ptr
  | Vosk_recognizer_reset ptr

text \<open>
  What the file is compiled against: the engine's functions over its own state \<open>'e\<close>, and
  the C implementation's conversion of a \<open>double\<close> to a \<open>float\<close>. The three result
  functions return the C string they point to.
\<close>

record 'e native =
  vosk_set_log_level :: "'e \<Rightarrow> cint \<Rightarrow> 'e"
  vosk_model_new :: "'e \<Rightarrow> bytes \<Rightarrow> ptr \<times> 'e"
  vosk_model_free :: "'e \<Rightarrow> ptr \<Rightarrow> 'e"
  vosk_model_find_word :: "'e \<Rightarrow> ptr \<Rightarrow> bytes \<Rightarrow> cint \<times> 'e"
  vosk_recognizer_new :: "'e \<Rightarrow> ptr \<Rightarrow> float32 \<Rightarrow> ptr \<times> 'e"
  vosk_recognizer_free :: "'e \<Rightarrow> ptr \<Rightarrow> 'e"
  vosk_recognizer_set_max_alternatives :: "'e \<Rightarrow> ptr \<Rightarrow> cint \<Rightarrow> 'e"
  vosk_recognizer_set_words :: "'e \<Rightarrow> ptr \<Rightarrow> cint \<Rightarrow> 'e"
  vosk_recognizer_set_partial_words :: "'e \<Rightarrow> ptr \<Rightarrow> cint \<Rightarrow> 'e"
  vosk_recognizer_accept_waveform :: "'e \<Rightarrow> ptr \<Rightarrow> bytes \<Rightarrow> cint \<Rightarrow> cint \<times> 'e"
  vosk_recognizer_result :: "'e \<Rightarrow> ptr \<Rightarrow> bytes \<times> 'e"
  vosk_recognizer_partial_result :: "'e \<Rightarrow> ptr \<Rightarrow> bytes \<times> 'e"
  vosk_recognizer_final_result :: "'e \<Rightarrow> ptr \<Rightarrow> bytes \<times> 'e"
  vosk_recognizer_reset :: "'e \<Rightarrow> ptr \<Rightarrow> 'e"
  float_of_double :: "double \<Rightarrow> float32"

text \<open>
  The state the file runs in: the engine's state, the log of calls made into the engine,
  the resource objects of the runtime (an object's address is its index; the runtime
  allocates at the end), and the contents an uninitialised local array starts with.
\<close>

record 'e state =
  engine :: 'e
  calls :: "native_call list"
  heap :: "resource list"
  uninit :: "nat \<Rightarrow> byte"

definition called :: "native_call \<Rightarrow> 'e \<Rightarrow> 'e state \<Rightarrow> 'e state" where
  "called c e s = s\<lparr>engine := e, calls := calls s @ [c]\<rparr>"

subsection \<open>C memory\<close>

definition local_array :: "'e state \<Rightarrow> nat \<Rightarrow> bytes" where
  \<comment> \<open>\<open>char a[n];\<close>\<close>
  "local_array s n = map (uninit s) [0..<n]"

definition memcpy :: "bytes \<Rightarrow> bytes \<Rightarrow> nat \<Rightarrow> bytes option" where
  \<comment> \<open>\<open>memcpy(dst, src, n)\<close> into the array \<open>dst\<close>\<close>
  "memcpy dst src n =
     (if n \<le> length dst \<and> n \<le> length src then Some (take n src @ drop n dst) else None)"

definition store :: "bytes \<Rightarrow> nat \<Rightarrow> byte \<Rightarrow> bytes option" where
  \<comment> \<open>\<open>a[i] = v;\<close>\<close>
  "store a i v = (if i < length a then Some (a[i := v]) else None)"

definition c_str :: "bytes \<Rightarrow> bytes" where
  \<comment> \<open>the string a reader of a \<open>const char*\<close> sees: the bytes before the first zero\<close>
  "c_str a = takeWhile (\<lambda>b. b \<noteq> 0) a"

definition arg :: "eterm list \<Rightarrow> nat \<Rightarrow> eterm option" where
  \<comment> \<open>\<open>argv[i]\<close>, where \<open>argc\<close> is the length of \<open>argv\<close>\<close>
  "arg argv i = (if i < length argv then Some (argv ! i) else None)"

definition res_model :: "'e state \<Rightarrow> nat \<Rightarrow> ptr option" where
  \<comment> \<open>\<open>res->model\<close> for \<open>ModelResource* res\<close>\<close>
  "res_model s obj =
     (if obj < length (heap s)
      then (case heap s ! obj of ModelResource p \<Rightarrow> Some p | _ \<Rightarrow> None)
      else None)"

definition res_recognizer :: "'e state \<Rightarrow> nat \<Rightarrow> ptr option" where
  \<comment> \<open>\<open>res->recognizer\<close> for \<open>RecognizerResource* res\<close>\<close>
  "res_recognizer s obj =
     (if obj < length (heap s)
      then (case heap s ! obj of RecognizerResource p \<Rightarrow> Some p | _ \<Rightarrow> None)
      else None)"

definition set_res :: "nat \<Rightarrow> resource \<Rightarrow> 'e state \<Rightarrow> 'e state" where
  \<comment> \<open>a store to the one field of a resource object\<close>
  "set_res obj r s = s\<lparr>heap := (heap s)[obj := r]\<rparr>"

subsection \<open>The runtime (erl_nif.h)\<close>

definition enif_get_int :: "eterm \<Rightarrow> cint option" where
  \<comment> \<open>fails if the term is not an integer or is outside the bounds of \<open>int\<close>\<close>
  "enif_get_int t =
     (case t of
        Integer i \<Rightarrow> if - (2 ^ 31) \<le> i \<and> i < 2 ^ 31 then Some (word_of_int i) else None
      | _ \<Rightarrow> None)"

definition enif_get_double :: "eterm \<Rightarrow> double option" where
  \<comment> \<open>fails if the term is not a float\<close>
  "enif_get_double t = (case t of Float d \<Rightarrow> Some d | _ \<Rightarrow> None)"

definition enif_inspect_binary :: "eterm \<Rightarrow> bytes option" where
  \<comment> \<open>fails if the term is not a binary; \<open>size\<close> is the length of the result\<close>
  "enif_inspect_binary t = (case t of Binary bs \<Rightarrow> Some bs | _ \<Rightarrow> None)"

definition enif_get_resource :: "'e state \<Rightarrow> eterm \<Rightarrow> rtype \<Rightarrow> nat option" where
  \<comment> \<open>fails if the term is not a handle to a resource object of the given type; a resource
      term of the runtime always addresses a live object, and for an address outside the
      heap resolution fails here too\<close>
  "enif_get_resource s t ty =
     (case t of
        Resource obj \<Rightarrow>
          if obj < length (heap s) \<and> resource_type (heap s ! obj) = ty then Some obj else None
      | _ \<Rightarrow> None)"

definition enif_alloc_resource :: "resource \<Rightarrow> 'e state \<Rightarrow> nat \<times> 'e state" where
  \<comment> \<open>\<open>enif_alloc_resource\<close> and the store that initialises the object's one field\<close>
  "enif_alloc_resource r s = (length (heap s), s\<lparr>heap := heap s @ [r]\<rparr>)"

definition enif_make_resource :: "nat \<Rightarrow> eterm" where
  "enif_make_resource obj = Resource obj"

definition enif_release_resource :: "nat \<Rightarrow> 'e state \<Rightarrow> 'e state" where
  \<comment> \<open>gives up the reference \<open>enif_alloc_resource\<close> returned; the term made from the object
      holds its own, so the object stays, owned by the term. References are not counted here.\<close>
  "enif_release_resource obj s = s"

definition enif_make_badarg :: nif_return where
  "enif_make_badarg = Raise_badarg"

definition enif_make_atom :: "string \<Rightarrow> eterm" where
  "enif_make_atom a = Atom a"

definition enif_make_tuple2 :: "eterm \<Rightarrow> eterm \<Rightarrow> eterm" where
  "enif_make_tuple2 a b = Tuple [a, b]"

definition enif_make_int :: "cint \<Rightarrow> eterm" where
  "enif_make_int i = Integer (sint i)"

definition enif_make_string :: "bytes \<Rightarrow> eterm" where
  "enif_make_string cs = String_term cs"

subsection \<open>Calls into the engine\<close>

text \<open>Each call applies the engine's function to the engine's state and logs the call.\<close>

definition call_set_log_level :: "'e native \<Rightarrow> cint \<Rightarrow> 'e state \<Rightarrow> 'e state" where
  "call_set_log_level n level s =
     called (Vosk_set_log_level level) (vosk_set_log_level n (engine s) level) s"

definition call_model_new :: "'e native \<Rightarrow> bytes \<Rightarrow> 'e state \<Rightarrow> ptr \<times> 'e state" where
  "call_model_new n path s =
     (let (p, e) = vosk_model_new n (engine s) path in (p, called (Vosk_model_new path) e s))"

definition call_model_free :: "'e native \<Rightarrow> ptr \<Rightarrow> 'e state \<Rightarrow> 'e state" where
  "call_model_free n p s = called (Vosk_model_free p) (vosk_model_free n (engine s) p) s"

definition call_model_find_word ::
  "'e native \<Rightarrow> ptr \<Rightarrow> bytes \<Rightarrow> 'e state \<Rightarrow> cint \<times> 'e state" where
  "call_model_find_word n p word s =
     (let (r, e) = vosk_model_find_word n (engine s) p word
      in (r, called (Vosk_model_find_word p word) e s))"

definition call_recognizer_new ::
  "'e native \<Rightarrow> ptr \<Rightarrow> float32 \<Rightarrow> 'e state \<Rightarrow> ptr \<times> 'e state" where
  "call_recognizer_new n p rate s =
     (let (r, e) = vosk_recognizer_new n (engine s) p rate
      in (r, called (Vosk_recognizer_new p rate) e s))"

definition call_recognizer_free :: "'e native \<Rightarrow> ptr \<Rightarrow> 'e state \<Rightarrow> 'e state" where
  "call_recognizer_free n p s =
     called (Vosk_recognizer_free p) (vosk_recognizer_free n (engine s) p) s"

definition call_recognizer_set_max_alternatives ::
  "'e native \<Rightarrow> ptr \<Rightarrow> cint \<Rightarrow> 'e state \<Rightarrow> 'e state" where
  "call_recognizer_set_max_alternatives n p v s =
     called (Vosk_recognizer_set_max_alternatives p v)
       (vosk_recognizer_set_max_alternatives n (engine s) p v) s"

definition call_recognizer_set_words ::
  "'e native \<Rightarrow> ptr \<Rightarrow> cint \<Rightarrow> 'e state \<Rightarrow> 'e state" where
  "call_recognizer_set_words n p v s =
     called (Vosk_recognizer_set_words p v) (vosk_recognizer_set_words n (engine s) p v) s"

definition call_recognizer_set_partial_words ::
  "'e native \<Rightarrow> ptr \<Rightarrow> cint \<Rightarrow> 'e state \<Rightarrow> 'e state" where
  "call_recognizer_set_partial_words n p v s =
     called (Vosk_recognizer_set_partial_words p v)
       (vosk_recognizer_set_partial_words n (engine s) p v) s"

definition call_recognizer_accept_waveform ::
  "'e native \<Rightarrow> ptr \<Rightarrow> bytes \<Rightarrow> cint \<Rightarrow> 'e state \<Rightarrow> cint \<times> 'e state" where
  "call_recognizer_accept_waveform n p data len s =
     (let (r, e) = vosk_recognizer_accept_waveform n (engine s) p data len
      in (r, called (Vosk_recognizer_accept_waveform p data len) e s))"

definition call_recognizer_result :: "'e native \<Rightarrow> ptr \<Rightarrow> 'e state \<Rightarrow> bytes \<times> 'e state" where
  "call_recognizer_result n p s =
     (let (r, e) = vosk_recognizer_result n (engine s) p
      in (r, called (Vosk_recognizer_result p) e s))"

definition call_recognizer_partial_result ::
  "'e native \<Rightarrow> ptr \<Rightarrow> 'e state \<Rightarrow> bytes \<times> 'e state" where
  "call_recognizer_partial_result n p s =
     (let (r, e) = vosk_recognizer_partial_result n (engine s) p
      in (r, called (Vosk_recognizer_partial_result p) e s))"

definition call_recognizer_final_result ::
  "'e native \<Rightarrow> ptr \<Rightarrow> 'e state \<Rightarrow> bytes \<times> 'e state" where
  "call_recognizer_final_result n p s =
     (let (r, e) = vosk_recognizer_final_result n (engine s) p
      in (r, called (Vosk_recognizer_final_result p) e s))"

definition call_recognizer_reset :: "'e native \<Rightarrow> ptr \<Rightarrow> 'e state \<Rightarrow> 'e state" where
  "call_recognizer_reset n p s =
     called (Vosk_recognizer_reset p) (vosk_recognizer_reset n (engine s) p) s"

subsection \<open>Resource destructors (lines 19-33)\<close>

definition model_destructor :: "'e native \<Rightarrow> nat \<Rightarrow> 'e state \<Rightarrow> 'e state option" where
  "model_destructor n obj s = do {
     p \<leftarrow> res_model s obj;
     if p \<noteq> NULL
     then Some (set_res obj (ModelResource NULL) (call_model_free n p s))
     else Some s
   }"

definition recognizer_destructor :: "'e native \<Rightarrow> nat \<Rightarrow> 'e state \<Rightarrow> 'e state option" where
  "recognizer_destructor n obj s = do {
     p \<leftarrow> res_recognizer s obj;
     if p \<noteq> NULL
     then Some (set_res obj (RecognizerResource NULL) (call_recognizer_free n p s))
     else Some s
   }"

subsection \<open>The entry points (lines 35-235)\<close>

type_synonym 'e nif = "'e native \<Rightarrow> eterm list \<Rightarrow> 'e state \<Rightarrow> (nif_return \<times> 'e state) option"

definition make_error :: "string \<Rightarrow> eterm" where
  "make_error reason = enif_make_tuple2 (enif_make_atom ''error'') (enif_make_atom reason)"

definition set_log_level_nif :: "'e nif" where
  "set_log_level_nif n argv s = do {
     a0 \<leftarrow> arg argv 0;
     case enif_get_int a0 of
       None \<Rightarrow> Some (enif_make_badarg, s)
     | Some level \<Rightarrow> Some (Return (enif_make_atom ''ok''), call_set_log_level n level s)
   }"

definition load_model_nif :: "'e nif" where
  "load_model_nif n argv s = do {
     a0 \<leftarrow> arg argv 0;
     case enif_inspect_binary a0 of
       None \<Rightarrow> Some (enif_make_badarg, s)
     | Some path_bin \<Rightarrow>
         if length path_bin \<ge> 1024 then Some (enif_make_badarg, s)
         else do {
           path \<leftarrow> memcpy (local_array s 1024) path_bin (length path_bin);
           path \<leftarrow> store path (length path_bin) 0;
           let (model, s) = call_model_new n path s;
           if model = NULL then Some (Return (make_error ''model_load_failed''), s)
           else do {
             let (res, s) = enif_alloc_resource (ModelResource model) s;
             let term = enif_make_resource res;
             let s = enif_release_resource res s;
             Some (Return (enif_make_tuple2 (enif_make_atom ''ok'') term), s)
           }
         }
   }"

definition find_word_nif :: "'e nif" where
  "find_word_nif n argv s = do {
     a0 \<leftarrow> arg argv 0;
     case enif_get_resource s a0 MODEL_TYPE of
       None \<Rightarrow> Some (enif_make_badarg, s)
     | Some model_res \<Rightarrow> do {
         a1 \<leftarrow> arg argv 1;
         case enif_inspect_binary a1 of
           None \<Rightarrow> Some (enif_make_badarg, s)
         | Some word_bin \<Rightarrow>
             if length word_bin \<ge> 256 then Some (enif_make_badarg, s)
             else do {
               word \<leftarrow> memcpy (local_array s 256) word_bin (length word_bin);
               word \<leftarrow> store word (length word_bin) 0;
               model \<leftarrow> res_model s model_res;
               let (result, s) = call_model_find_word n model word s;
               Some (Return (enif_make_int result), s)
             }
       }
   }"

definition create_recognizer_nif :: "'e nif" where
  "create_recognizer_nif n argv s = do {
     a0 \<leftarrow> arg argv 0;
     case enif_get_resource s a0 MODEL_TYPE of
       None \<Rightarrow> Some (enif_make_badarg, s)
     | Some model_res \<Rightarrow> do {
         a1 \<leftarrow> arg argv 1;
         case enif_get_double a1 of
           None \<Rightarrow> Some (enif_make_badarg, s)
         | Some sample_rate \<Rightarrow> do {
             model \<leftarrow> res_model s model_res;
             let (rec, s) = call_recognizer_new n model (float_of_double n sample_rate) s;
             if rec = NULL then Some (Return (make_error ''recognizer_creation_failed''), s)
             else do {
               let (res, s) = enif_alloc_resource (RecognizerResource rec) s;
               let term = enif_make_resource res;
               let s = enif_release_resource res s;
               Some (Return (enif_make_tuple2 (enif_make_atom ''ok'') term), s)
             }
           }
       }
   }"

definition set_max_alternatives_nif :: "'e nif" where
  "set_max_alternatives_nif n argv s = do {
     a0 \<leftarrow> arg argv 0;
     case enif_get_resource s a0 RECOGNIZER_TYPE of
       None \<Rightarrow> Some (enif_make_badarg, s)
     | Some rec_res \<Rightarrow> do {
         a1 \<leftarrow> arg argv 1;
         case enif_get_int a1 of
           None \<Rightarrow> Some (enif_make_badarg, s)
         | Some max_alternatives \<Rightarrow> do {
             rec \<leftarrow> res_recognizer s rec_res;
             Some (Return (enif_make_atom ''ok''),
                   call_recognizer_set_max_alternatives n rec max_alternatives s)
           }
       }
   }"

definition set_words_nif :: "'e nif" where
  "set_words_nif n argv s = do {
     a0 \<leftarrow> arg argv 0;
     case enif_get_resource s a0 RECOGNIZER_TYPE of
       None \<Rightarrow> Some (enif_make_badarg, s)
     | Some rec_res \<Rightarrow> do {
         a1 \<leftarrow> arg argv 1;
         case enif_get_int a1 of
           None \<Rightarrow> Some (enif_make_badarg, s)
         | Some words \<Rightarrow> do {
             rec \<leftarrow> res_recognizer s rec_res;
             Some (Return (enif_make_atom ''ok''), call_recognizer_set_words n rec words s)
           }
       }
   }"

definition set_partial_words_nif :: "'e nif" where
  "set_partial_words_nif n argv s = do {
     a0 \<leftarrow> arg argv 0;
     case enif_get_resource s a0 RECOGNIZER_TYPE of
       None \<Rightarrow> Some (enif_make_badarg, s)
     | Some rec_res \<Rightarrow> do {
         a1 \<leftarrow> arg argv 1;
         case enif_get_int a1 of
           None \<Rightarrow> Some (enif_make_badarg, s)
         | Some partial_words \<Rightarrow> do {
             rec \<leftarrow> res_recognizer s rec_res;
             Some (Return (enif_make_atom ''ok''),
                   call_recognizer_set_partial_words n rec partial_words s)
           }
       }
   }"

text \<open>
  The engine's \<open>length\<close> parameter is an \<open>int\<close>; the binary's \<open>size\<close> is a \<open>size_t\<close>, converted
  at the call.
\<close>

definition accept_waveform_nif :: "'e nif" where
  "accept_waveform_nif n argv s = do {
     a0 \<leftarrow> arg argv 0;
     case enif_get_resource s a0 RECOGNIZER_TYPE of
       None \<Rightarrow> Some (enif_make_badarg, s)
     | Some rec_res \<Rightarrow> do {
         a1 \<leftarrow> arg argv 1;
         case enif_inspect_binary a1 of
           None \<Rightarrow> Some (enif_make_badarg, s)
         | Some audio_data \<Rightarrow> do {
             rec \<leftarrow> res_recognizer s rec_res;
             let (result, s) =
               call_recognizer_accept_waveform n rec audio_data (of_nat (length audio_data)) s;
             Some (Return (enif_make_int result), s)
           }
       }
   }"

definition get_result_nif :: "'e nif" where
  "get_result_nif n argv s = do {
     a0 \<leftarrow> arg argv 0;
     case enif_get_resource s a0 RECOGNIZER_TYPE of
       None \<Rightarrow> Some (enif_make_badarg, s)
     | Some rec_res \<Rightarrow> do {
         rec \<leftarrow> res_recognizer s rec_res;
         let (result, s) = call_recognizer_result n rec s;
         Some (Return (enif_make_string result), s)
       }
   }"

definition get_partial_result_nif :: "'e nif" where
  "get_partial_result_nif n argv s = do {
     a0 \<leftarrow> arg argv 0;
     case enif_get_resource s a0 RECOGNIZER_TYPE of
       None \<Rightarrow> Some (enif_make_badarg, s)
     | Some rec_res \<Rightarrow> do {
         rec \<leftarrow> res_recognizer s rec_res;
         let (result, s) = call_recognizer_partial_result n rec s;
         Some (Return (enif_make_string result), s)
       }
   }"

definition get_final_result_nif :: "'e nif" where
  "get_final_result_nif n argv s = do {
     a0 \<leftarrow> arg argv 0;
     case enif_get_resource s a0 RECOGNIZER_TYPE of
       None \<Rightarrow> Some (enif_make_badarg, s)
     | Some rec_res \<Rightarrow> do {
         rec \<leftarrow> res_recognizer s rec_res;
         let (result, s) = call_recognizer_final_result n rec s;
         Some (Return (enif_make_string result), s)
       }
   }"

definition reset_recognizer_nif :: "'e nif" where
  "reset_recognizer_nif n argv s = do {
     a0 \<leftarrow> arg argv 0;
     case enif_get_resource s a0 RECOGNIZER_TYPE of
       None \<Rightarrow> Some (enif_make_badarg, s)
     | Some rec_res \<Rightarrow> do {
         rec \<leftarrow> res_recognizer s rec_res;
         Some (Return (enif_make_atom ''ok''), call_recognizer_reset n rec s)
       }
   }"

subsection \<open>The load callback (lines 238-266)\<close>

text \<open>
  \<open>enif_open_resource_type\<close> is the runtime's: what each of the two registrations returns
  (\<open>None\<close> for a null pointer) is an input. The result is the callback's return value,
  nonzero for a failed load.
\<close>

definition load ::
  "'e native \<Rightarrow> eterm \<Rightarrow> rtype option \<Rightarrow> rtype option \<Rightarrow> 'e state \<Rightarrow> int \<times> 'e state" where
  "load n load_info opened_model opened_recognizer s =
     (let log_level = (- 1 :: cint);
          log_level = (case enif_get_int load_info of None \<Rightarrow> - 1 | Some l \<Rightarrow> l);
          s = call_set_log_level n log_level s
      in if opened_model = None \<or> opened_recognizer = None then (1, s) else (0, s))"

subsection \<open>The table of exported functions (lines 269-282)\<close>

datatype nif_fn =
    Set_log_level_nif
  | Load_model_nif
  | Find_word_nif
  | Create_recognizer_nif
  | Set_max_alternatives_nif
  | Set_words_nif
  | Set_partial_words_nif
  | Accept_waveform_nif
  | Get_result_nif
  | Get_partial_result_nif
  | Get_final_result_nif
  | Reset_recognizer_nif

record ErlNifFunc =
  name :: string
  arity :: nat
  fptr :: nif_fn
  flags :: nat

definition ERL_NIF_DIRTY_JOB_CPU_BOUND :: nat where
  "ERL_NIF_DIRTY_JOB_CPU_BOUND = 1"

definition ERL_NIF_DIRTY_JOB_IO_BOUND :: nat where
  "ERL_NIF_DIRTY_JOB_IO_BOUND = 2"

definition nif_funcs :: "ErlNifFunc list" where
  "nif_funcs =
    [\<lparr>name = ''set_log_level'', arity = 1, fptr = Set_log_level_nif, flags = 0\<rparr>,
     \<lparr>name = ''load_model'', arity = 1, fptr = Load_model_nif, flags = 0\<rparr>,
     \<lparr>name = ''find_word'', arity = 2, fptr = Find_word_nif, flags = 0\<rparr>,
     \<lparr>name = ''create_recognizer'', arity = 2, fptr = Create_recognizer_nif, flags = 0\<rparr>,
     \<lparr>name = ''set_max_alternatives'', arity = 2, fptr = Set_max_alternatives_nif, flags = 0\<rparr>,
     \<lparr>name = ''set_words'', arity = 2, fptr = Set_words_nif, flags = 0\<rparr>,
     \<lparr>name = ''set_partial_words'', arity = 2, fptr = Set_partial_words_nif, flags = 0\<rparr>,
     \<lparr>name = ''accept_waveform'', arity = 2, fptr = Accept_waveform_nif,
      flags = ERL_NIF_DIRTY_JOB_CPU_BOUND\<rparr>,
     \<lparr>name = ''get_result'', arity = 1, fptr = Get_result_nif, flags = 0\<rparr>,
     \<lparr>name = ''get_partial_result'', arity = 1, fptr = Get_partial_result_nif, flags = 0\<rparr>,
     \<lparr>name = ''get_final_result'', arity = 1, fptr = Get_final_result_nif, flags = 0\<rparr>,
     \<lparr>name = ''reset_recognizer'', arity = 1, fptr = Reset_recognizer_nif, flags = 0\<rparr>]"

fun call_fptr :: "nif_fn \<Rightarrow> 'e nif" where
  "call_fptr Set_log_level_nif = set_log_level_nif"
| "call_fptr Load_model_nif = load_model_nif"
| "call_fptr Find_word_nif = find_word_nif"
| "call_fptr Create_recognizer_nif = create_recognizer_nif"
| "call_fptr Set_max_alternatives_nif = set_max_alternatives_nif"
| "call_fptr Set_words_nif = set_words_nif"
| "call_fptr Set_partial_words_nif = set_partial_words_nif"
| "call_fptr Accept_waveform_nif = accept_waveform_nif"
| "call_fptr Get_result_nif = get_result_nif"
| "call_fptr Get_partial_result_nif = get_partial_result_nif"
| "call_fptr Get_final_result_nif = get_final_result_nif"
| "call_fptr Reset_recognizer_nif = reset_recognizer_nif"

text \<open>
  Where the runtime runs an exported function, by the flags of its table entry: an entry
  with flags 0 runs on the scheduler thread of the calling process, a dirty one on a thread
  of the dirty CPU or dirty I/O scheduler pool.
\<close>

datatype scheduler = Calling_scheduler | Dirty_cpu_scheduler | Dirty_io_scheduler

definition runs_on :: "ErlNifFunc \<Rightarrow> scheduler" where
  "runs_on f =
     (if flags f = ERL_NIF_DIRTY_JOB_CPU_BOUND then Dirty_cpu_scheduler
      else if flags f = ERL_NIF_DIRTY_JOB_IO_BOUND then Dirty_io_scheduler
      else Calling_scheduler)"

subsection \<open>The results of the call surface\<close>

text \<open>
  The values the twelve operations are documented to return: \<open>ok\<close>, an integer, a string,
  \<open>{ok, Handle}\<close>, one of the two tagged failures, or the badarg exception.
\<close>

fun documented_result :: "nif_return \<Rightarrow> bool" where
  "documented_result Raise_badarg = True"
| "documented_result (Return (Atom a)) = (a = ''ok'')"
| "documented_result (Return (Integer i)) = True"
| "documented_result (Return (String_term cs)) = True"
| "documented_result (Return (Tuple [Atom a, Resource obj])) = (a = ''ok'')"
| "documented_result (Return (Tuple [Atom a, Atom b])) =
     (a = ''error'' \<and> (b = ''model_load_failed'' \<or> b = ''recognizer_creation_failed''))"
| "documented_result _ = False"

subsection \<open>An engine and a state to evaluate at\<close>

text \<open>
  A small stand-in for the engine: it numbers the objects it constructs, refuses to load
  a model from the empty path and to build a recognizer at rate 0, knows every word but
  the empty one, and reports an endpoint on any audio that is not empty. Its conversion
  of a \<open>double\<close> keeps the sign, rebiases the exponent and cuts the fraction to 23 bits.
  That is the C conversion only on zero and on the doubles that a \<open>float\<close> in the normal
  range represents exactly, such as 16000.0; elsewhere it is not (it truncates where C
  rounds, and it has no subnormal, infinite or out-of-range case). It is used at 0.0 and
  16000.0 only.
\<close>

definition demo_float_of_double :: "double \<Rightarrow> float32" where
  "demo_float_of_double d =
     (if take_bit 63 d = 0 then push_bit 31 (ucast (drop_bit 63 d))
      else push_bit 31 (ucast (drop_bit 63 d))
        OR push_bit 23 (ucast (take_bit 11 (drop_bit 52 d)) - 896)
        OR ucast (take_bit 23 (drop_bit 29 d)))"

definition demo_native :: "nat native" where
  "demo_native = \<lparr>
     vosk_set_log_level = (\<lambda>e level. e),
     vosk_model_new = (\<lambda>e path. if c_str path = [] then (NULL, e) else (Suc e, Suc e)),
     vosk_model_free = (\<lambda>e p. e),
     vosk_model_find_word = (\<lambda>e p word. (if c_str word = [] then - 1 else 7, e)),
     vosk_recognizer_new = (\<lambda>e p rate. if rate = 0 then (NULL, e) else (Suc e, Suc e)),
     vosk_recognizer_free = (\<lambda>e p. e),
     vosk_recognizer_set_max_alternatives = (\<lambda>e p v. e),
     vosk_recognizer_set_words = (\<lambda>e p v. e),
     vosk_recognizer_set_partial_words = (\<lambda>e p v. e),
     vosk_recognizer_accept_waveform = (\<lambda>e p data len. (if data = [] then 0 else 1, e)),
     vosk_recognizer_result = (\<lambda>e p. ([123, 125], e)),
     vosk_recognizer_partial_result = (\<lambda>e p. ([123, 125], e)),
     vosk_recognizer_final_result = (\<lambda>e p. ([123, 125], e)),
     vosk_recognizer_reset = (\<lambda>e p. e),
     float_of_double = demo_float_of_double
   \<rparr>"

definition demo_state :: "nat state" where
  "demo_state = \<lparr>engine = 2, calls = [],
     heap = [ModelResource 1, RecognizerResource 2], uninit = (\<lambda>i. 255)\<rparr>"

section \<open>Properties\<close>

subsection \<open>Helper facts\<close>

lemma arg_simps:
  "arg (a # as) 0 = Some a"
  "arg [a, b] (Suc 0) = Some b"
  by (simp_all add: arg_def)

lemma length_local_array: "length (local_array s N) = N"
  by (simp add: local_array_def)

lemma memcpy_local_array:
  "length bs < N \<Longrightarrow>
     memcpy (local_array s N) bs (length bs) = Some (bs @ drop (length bs) (local_array s N))"
  by (simp add: memcpy_def length_local_array)

lemma store_terminator:
  "length bs < N \<Longrightarrow>
     store (bs @ drop (length bs) (local_array s N)) (length bs) 0
       = Some (bs @ 0 # drop (Suc (length bs)) (local_array s N))"
  by (simp add: store_def length_local_array list_update_append upd_conv_take_nth_drop
      flip: Cons_nth_drop_Suc)

lemma get_resource_model:
  "obj < length (heap s) \<Longrightarrow> heap s ! obj = ModelResource p \<Longrightarrow>
     enif_get_resource s (Resource obj) MODEL_TYPE = Some obj \<and> res_model s obj = Some p
     \<and> enif_get_resource s (Resource obj) RECOGNIZER_TYPE = None"
  by (simp add: enif_get_resource_def res_model_def)

lemma get_resource_recognizer:
  "obj < length (heap s) \<Longrightarrow> heap s ! obj = RecognizerResource p \<Longrightarrow>
     enif_get_resource s (Resource obj) RECOGNIZER_TYPE = Some obj
     \<and> res_recognizer s obj = Some p
     \<and> enif_get_resource s (Resource obj) MODEL_TYPE = None"
  by (simp add: enif_get_resource_def res_recognizer_def)

lemma resolved_model:
  "enif_get_resource s t MODEL_TYPE = Some obj \<Longrightarrow> \<exists>p. res_model s obj = Some p"
  by (cases t; cases "heap s ! obj")
    (auto simp: enif_get_resource_def res_model_def split: if_splits)

lemma resolved_recognizer:
  "enif_get_resource s t RECOGNIZER_TYPE = Some obj \<Longrightarrow> \<exists>p. res_recognizer s obj = Some p"
  by (cases t; cases "heap s ! obj")
    (auto simp: enif_get_resource_def res_recognizer_def split: if_splits)

lemma c_str_terminated: "c_str (bs @ 0 # rest) = c_str bs"
  by (induction bs) (simp_all add: c_str_def)

lemma argv1: "length argv = Suc 0 \<Longrightarrow> \<exists>a. argv = [a]"
  by (cases argv) simp_all

lemma argv2: "length argv = 2 \<Longrightarrow> \<exists>a b. argv = [a, b]"
  by (cases argv; cases "tl argv") auto

lemmas builders = enif_make_badarg_def enif_make_atom_def enif_make_tuple2_def
  enif_make_int_def enif_make_string_def enif_make_resource_def enif_release_resource_def
  make_error_def

lemma sint_cint_of_int:
  "- (2 ^ 31) \<le> i \<Longrightarrow> i < 2 ^ 31 \<Longrightarrow> sint (word_of_int i :: cint) = i"
  by (simp add: signed_of_int signed_take_bit_int_eq_self)

lemma sint_cint_of_nat:
  "k < 2 ^ 31 \<Longrightarrow> sint (of_nat k :: cint) = int k"
  by (simp add: signed_of_nat signed_take_bit_int_eq_self)

lemma calls_called: "calls (called c e s) = calls s @ [c]"
  by (simp add: called_def)

lemma load_model_too_long:
  "1024 \<le> length path \<Longrightarrow> load_model_nif n [Binary path] s = Some (Raise_badarg, s)"
  by (simp add: load_model_nif_def arg_simps enif_inspect_binary_def builders)

lemma find_word_too_long:
  "256 \<le> length word \<Longrightarrow> find_word_nif n [m, Binary word] s = Some (Raise_badarg, s)"
  by (simp add: find_word_nif_def arg_simps enif_inspect_binary_def builders
      split: option.split)

lemma load_model_run:
  "length path < 1024 \<Longrightarrow>
     vosk_model_new n (engine s) (path @ 0 # drop (Suc (length path)) (local_array s 1024))
       = (p, e) \<Longrightarrow>
     load_model_nif n [Binary path] s =
       (if p = NULL
        then Some (Return (Tuple [Atom ''error'', Atom ''model_load_failed'']),
               called (Vosk_model_new
                 (path @ 0 # drop (Suc (length path)) (local_array s 1024))) e s)
        else Some (Return (Tuple [Atom ''ok'', Resource (length (heap s))]),
               (called (Vosk_model_new
                 (path @ 0 # drop (Suc (length path)) (local_array s 1024))) e s)
                 \<lparr>heap := heap s @ [ModelResource p]\<rparr>))"
  by (simp add: load_model_nif_def arg_simps enif_inspect_binary_def memcpy_local_array
      store_terminator call_model_new_def builders enif_alloc_resource_def called_def)

lemma find_word_run:
  "obj < length (heap s) \<Longrightarrow> heap s ! obj = ModelResource p \<Longrightarrow> length word < 256 \<Longrightarrow>
     vosk_model_find_word n (engine s) p
        (word @ 0 # drop (Suc (length word)) (local_array s 256)) = (r, e) \<Longrightarrow>
     find_word_nif n [Resource obj, Binary word] s =
       Some (Return (Integer (sint r)),
             called (Vosk_model_find_word p
                (word @ 0 # drop (Suc (length word)) (local_array s 256))) e s)"
  by (simp add: find_word_nif_def arg_simps enif_inspect_binary_def memcpy_local_array
      store_terminator get_resource_model call_model_find_word_def builders)

lemma create_recognizer_run:
  "obj < length (heap s) \<Longrightarrow> heap s ! obj = ModelResource m \<Longrightarrow>
     vosk_recognizer_new n (engine s) m (float_of_double n rate) = (r, e) \<Longrightarrow>
     create_recognizer_nif n [Resource obj, Float rate] s =
       (if r = NULL
        then Some (Return (Tuple [Atom ''error'', Atom ''recognizer_creation_failed'']),
               called (Vosk_recognizer_new m (float_of_double n rate)) e s)
        else Some (Return (Tuple [Atom ''ok'', Resource (length (heap s))]),
               (called (Vosk_recognizer_new m (float_of_double n rate)) e s)
                 \<lparr>heap := heap s @ [RecognizerResource r]\<rparr>))"
  by (simp add: create_recognizer_nif_def arg_simps enif_get_double_def get_resource_model
      call_recognizer_new_def builders enif_alloc_resource_def called_def)

lemma accept_waveform_run:
  "obj < length (heap s) \<Longrightarrow> heap s ! obj = RecognizerResource p \<Longrightarrow>
     vosk_recognizer_accept_waveform n (engine s) p audio (of_nat (length audio)) = (r, e) \<Longrightarrow>
     accept_waveform_nif n [Resource obj, Binary audio] s =
       Some (Return (Integer (sint r)),
             called (Vosk_recognizer_accept_waveform p audio (of_nat (length audio))) e s)"
  by (simp add: accept_waveform_nif_def arg_simps enif_inspect_binary_def
      get_resource_recognizer call_recognizer_accept_waveform_def builders)

lemma set_log_level_checked:
  "\<exists>r s'. set_log_level_nif n [a] s = Some (r, s') \<and> documented_result r
     \<and> (r = Raise_badarg \<longrightarrow> s' = s)"
  by (simp add: set_log_level_nif_def arg_simps builders split: option.split)

lemma load_model_checked:
  "\<exists>r s'. load_model_nif n [a] s = Some (r, s') \<and> documented_result r
     \<and> (r = Raise_badarg \<longrightarrow> s' = s)"
  by (simp add: load_model_nif_def arg_simps builders memcpy_local_array store_terminator
      enif_alloc_resource_def split: option.split prod.split)

lemma find_word_checked:
  "\<exists>r s'. find_word_nif n [a, b] s = Some (r, s') \<and> documented_result r
     \<and> (r = Raise_badarg \<longrightarrow> s' = s)"
  by (auto simp: find_word_nif_def arg_simps builders memcpy_local_array store_terminator
      dest!: resolved_model split: option.split prod.split)

lemma create_recognizer_checked:
  "\<exists>r s'. create_recognizer_nif n [a, b] s = Some (r, s') \<and> documented_result r
     \<and> (r = Raise_badarg \<longrightarrow> s' = s)"
  by (auto simp: create_recognizer_nif_def arg_simps builders enif_alloc_resource_def
      dest!: resolved_model split: option.split prod.split)

lemma set_max_alternatives_checked:
  "\<exists>r s'. set_max_alternatives_nif n [a, b] s = Some (r, s') \<and> documented_result r
     \<and> (r = Raise_badarg \<longrightarrow> s' = s)"
  by (auto simp: set_max_alternatives_nif_def arg_simps builders
      dest!: resolved_recognizer split: option.split prod.split)

lemma set_words_checked:
  "\<exists>r s'. set_words_nif n [a, b] s = Some (r, s') \<and> documented_result r
     \<and> (r = Raise_badarg \<longrightarrow> s' = s)"
  by (auto simp: set_words_nif_def arg_simps builders
      dest!: resolved_recognizer split: option.split prod.split)

lemma set_partial_words_checked:
  "\<exists>r s'. set_partial_words_nif n [a, b] s = Some (r, s') \<and> documented_result r
     \<and> (r = Raise_badarg \<longrightarrow> s' = s)"
  by (auto simp: set_partial_words_nif_def arg_simps builders
      dest!: resolved_recognizer split: option.split prod.split)

lemma accept_waveform_checked:
  "\<exists>r s'. accept_waveform_nif n [a, b] s = Some (r, s') \<and> documented_result r
     \<and> (r = Raise_badarg \<longrightarrow> s' = s)"
  by (auto simp: accept_waveform_nif_def arg_simps builders
      dest!: resolved_recognizer split: option.split prod.split)

lemma get_result_checked:
  "\<exists>r s'. get_result_nif n [a] s = Some (r, s') \<and> documented_result r
     \<and> (r = Raise_badarg \<longrightarrow> s' = s)"
  by (auto simp: get_result_nif_def arg_simps builders
      dest!: resolved_recognizer split: option.split prod.split)

lemma get_partial_result_checked:
  "\<exists>r s'. get_partial_result_nif n [a] s = Some (r, s') \<and> documented_result r
     \<and> (r = Raise_badarg \<longrightarrow> s' = s)"
  by (auto simp: get_partial_result_nif_def arg_simps builders
      dest!: resolved_recognizer split: option.split prod.split)

lemma get_final_result_checked:
  "\<exists>r s'. get_final_result_nif n [a] s = Some (r, s') \<and> documented_result r
     \<and> (r = Raise_badarg \<longrightarrow> s' = s)"
  by (auto simp: get_final_result_nif_def arg_simps builders
      dest!: resolved_recognizer split: option.split prod.split)

lemma reset_recognizer_checked:
  "\<exists>r s'. reset_recognizer_nif n [a] s = Some (r, s') \<and> documented_result r
     \<and> (r = Raise_badarg \<longrightarrow> s' = s)"
  by (auto simp: reset_recognizer_nif_def arg_simps builders
      dest!: resolved_recognizer split: option.split prod.split)

lemmas nif_checked = set_log_level_checked load_model_checked find_word_checked
  create_recognizer_checked set_max_alternatives_checked set_words_checked
  set_partial_words_checked accept_waveform_checked get_result_checked
  get_partial_result_checked get_final_result_checked reset_recognizer_checked

lemma table_entry_checked:
  "f \<in> set nif_funcs \<Longrightarrow> length argv = arity f \<Longrightarrow>
     \<exists>r s'. call_fptr (fptr f) n argv s = Some (r, s') \<and> documented_result r
       \<and> (r = Raise_badarg \<longrightarrow> s' = s)"
  unfolding nif_funcs_def
  by (auto dest!: argv1 argv2 simp: nif_checked [simplified])

lemma unresolved_model_handle:
  "enif_get_resource s h MODEL_TYPE = None \<Longrightarrow>
     find_word_nif n [h, x] s = Some (Raise_badarg, s) \<and>
     create_recognizer_nif n [h, x] s = Some (Raise_badarg, s)"
  by (simp add: find_word_nif_def create_recognizer_nif_def arg_simps enif_make_badarg_def)

lemma unresolved_recognizer_handle:
  "enif_get_resource s h RECOGNIZER_TYPE = None \<Longrightarrow>
     set_max_alternatives_nif n [h, x] s = Some (Raise_badarg, s) \<and>
     set_words_nif n [h, x] s = Some (Raise_badarg, s) \<and>
     set_partial_words_nif n [h, x] s = Some (Raise_badarg, s) \<and>
     accept_waveform_nif n [h, x] s = Some (Raise_badarg, s) \<and>
     get_result_nif n [h] s = Some (Raise_badarg, s) \<and>
     get_partial_result_nif n [h] s = Some (Raise_badarg, s) \<and>
     get_final_result_nif n [h] s = Some (Raise_badarg, s) \<and>
     reset_recognizer_nif n [h] s = Some (Raise_badarg, s)"
  by (simp add: set_max_alternatives_nif_def set_words_nif_def set_partial_words_nif_def
      accept_waveform_nif_def get_result_nif_def get_partial_result_nif_def
      get_final_result_nif_def reset_recognizer_nif_def arg_simps enif_make_badarg_def)

lemma audio_forwarded:
  "obj < length (heap s) \<Longrightarrow> heap s ! obj = RecognizerResource p \<Longrightarrow>
     \<exists>r s' len. accept_waveform_nif n [Resource obj, Binary audio] s = Some (Return r, s')
       \<and> calls s' = calls s @ [Vosk_recognizer_accept_waveform p audio len]"
proof -
  assume obj: "obj < length (heap s)" and r: "heap s ! obj = RecognizerResource p"
  obtain st e where
    "vosk_recognizer_accept_waveform n (engine s) p audio (of_nat (length audio)) = (st, e)"
    by (cases "vosk_recognizer_accept_waveform n (engine s) p audio (of_nat (length audio))")
  from accept_waveform_run [OF obj r this] show ?thesis
    by (simp add: calls_called)
qed

lemma load_run:
  "load n load_info om orc s =
     (if om = None \<or> orc = None then 1 else 0,
      call_set_log_level n (case enif_get_int load_info of None \<Rightarrow> - 1 | Some l \<Rightarrow> l) s)"
  by (simp add: load_def Let_def)

subsection \<open>Destruction\<close>

text \<open>
  C1. Running a destructor twice on a live Model or Recognizer resource frees once. On an
  object whose stored pointer \<open>p\<close> is not null the first run succeeds, logs exactly one
  call of the engine's free function, on \<open>p\<close>, and leaves null in the object; the second
  run, on the state the first one left, returns that state unchanged.
\<close>

theorem destructor_twice_frees_once:
  "obj < length (heap s) \<Longrightarrow> p \<noteq> NULL \<Longrightarrow>
     (heap s ! obj = ModelResource p \<longrightarrow>
        (\<exists>s1. model_destructor n obj s = Some s1
           \<and> heap s1 = (heap s)[obj := ModelResource NULL]
           \<and> calls s1 = calls s @ [Vosk_model_free p]
           \<and> model_destructor n obj s1 = Some s1)) \<and>
     (heap s ! obj = RecognizerResource p \<longrightarrow>
        (\<exists>s1. recognizer_destructor n obj s = Some s1
           \<and> heap s1 = (heap s)[obj := RecognizerResource NULL]
           \<and> calls s1 = calls s @ [Vosk_recognizer_free p]
           \<and> recognizer_destructor n obj s1 = Some s1))"
  by (simp add: model_destructor_def recognizer_destructor_def res_model_def
      res_recognizer_def set_res_def call_model_free_def call_recognizer_free_def called_def)

theorem destructor_twice_frees_once_witness:
  "(\<exists>s1. model_destructor demo_native 0 demo_state = Some s1
      \<and> heap s1 = [ModelResource NULL, RecognizerResource 2]
      \<and> calls s1 = [Vosk_model_free 1]
      \<and> model_destructor demo_native 0 s1 = Some s1) \<and>
   (\<exists>s1. recognizer_destructor demo_native 1 demo_state = Some s1
      \<and> heap s1 = [ModelResource 1, RecognizerResource NULL]
      \<and> calls s1 = [Vosk_recognizer_free 2]
      \<and> recognizer_destructor demo_native 1 s1 = Some s1)"
  using destructor_twice_frees_once [of 0 demo_state 1 demo_native]
    destructor_twice_frees_once [of 1 demo_state 2 demo_native]
  by (simp add: demo_state_def NULL_def)

subsection \<open>Bounds of the inbound buffers\<close>

text \<open>
  C2. A path of 1024 bytes or more makes \<open>load_model\<close> raise badarg, and a word of 256
  bytes or more makes \<open>find_word\<close> raise badarg whatever its first argument is; in both
  cases the state, and with it the engine and the log of native calls, is unchanged. A
  path under 1024 bytes passes the check: \<open>load_model\<close> returns a term and has called the
  engine's model constructor. A word under 256 bytes, with a Model handle, passes the
  check: \<open>find_word\<close> returns a term and has called the engine's lookup.
\<close>

theorem bounds_enforced:
  "(1024 \<le> length path \<longrightarrow> load_model_nif n [Binary path] s = Some (Raise_badarg, s)) \<and>
   (256 \<le> length word \<longrightarrow> find_word_nif n [m, Binary word] s = Some (Raise_badarg, s)) \<and>
   (length path < 1024 \<longrightarrow>
      (\<exists>r s' buf. load_model_nif n [Binary path] s = Some (Return r, s')
         \<and> calls s' = calls s @ [Vosk_model_new buf])) \<and>
   (length word < 256 \<longrightarrow> obj < length (heap s) \<longrightarrow> heap s ! obj = ModelResource p \<longrightarrow>
      (\<exists>r s' buf. find_word_nif n [Resource obj, Binary word] s = Some (Return r, s')
         \<and> calls s' = calls s @ [Vosk_model_find_word p buf]))"
proof (intro conjI impI)
  assume "1024 \<le> length path"
  then show "load_model_nif n [Binary path] s = Some (Raise_badarg, s)"
    by (rule load_model_too_long)
next
  assume "256 \<le> length word"
  then show "find_word_nif n [m, Binary word] s = Some (Raise_badarg, s)"
    by (rule find_word_too_long)
next
  assume short: "length path < 1024"
  obtain q e where
    "vosk_model_new n (engine s) (path @ 0 # drop (Suc (length path)) (local_array s 1024))
       = (q, e)"
    by (cases "vosk_model_new n (engine s)
         (path @ 0 # drop (Suc (length path)) (local_array s 1024))")
  from load_model_run [OF short this]
  show "\<exists>r s' buf. load_model_nif n [Binary path] s = Some (Return r, s')
          \<and> calls s' = calls s @ [Vosk_model_new buf]"
    by (cases "q = NULL") (simp_all add: calls_called)
next
  assume short: "length word < 256" and obj: "obj < length (heap s)"
    and m: "heap s ! obj = ModelResource p"
  obtain r e where
    "vosk_model_find_word n (engine s) p
       (word @ 0 # drop (Suc (length word)) (local_array s 256)) = (r, e)"
    by (cases "vosk_model_find_word n (engine s) p
         (word @ 0 # drop (Suc (length word)) (local_array s 256))")
  from find_word_run [OF obj m short this]
  show "\<exists>r s' buf. find_word_nif n [Resource obj, Binary word] s = Some (Return r, s')
          \<and> calls s' = calls s @ [Vosk_model_find_word p buf]"
    by (simp add: calls_called)
qed

theorem bounds_enforced_witness:
  "load_model_nif demo_native [Binary (replicate 1024 47)] demo_state
     = Some (Raise_badarg, demo_state) \<and>
   find_word_nif demo_native [Resource 0, Binary (replicate 256 97)] demo_state
     = Some (Raise_badarg, demo_state) \<and>
   (\<exists>r s' buf. load_model_nif demo_native [Binary (replicate 1023 47)] demo_state
        = Some (Return r, s') \<and> calls s' = [Vosk_model_new buf]) \<and>
   (\<exists>r s' buf. find_word_nif demo_native [Resource 0, Binary (replicate 255 97)] demo_state
        = Some (Return r, s') \<and> calls s' = [Vosk_model_find_word 1 buf])"
  using bounds_enforced [of "replicate 1024 47" demo_native demo_state "replicate 256 97"
      "Resource 0" 0 1]
    bounds_enforced [of "replicate 1023 47" demo_native demo_state "replicate 255 97"
      "Resource 0" 0 1]
  by (simp add: demo_state_def)

subsection \<open>Handles of the wrong kind\<close>

text \<open>
  C3. A handle to a Model resource given to any of the eight operations that expect a
  Recognizer handle, and a handle to a Recognizer resource given to either of the two
  operations that expect a Model handle, fails resolution: the operation raises badarg
  and leaves the state unchanged, so no native call has been made and no field of the
  object has been read. The badarg exception is not one of the two tagged failures.
\<close>

theorem handle_kind_confusion:
  "obj < length (heap s) \<Longrightarrow>
     (heap s ! obj = ModelResource p \<longrightarrow>
        set_max_alternatives_nif n [Resource obj, x] s = Some (Raise_badarg, s) \<and>
        set_words_nif n [Resource obj, x] s = Some (Raise_badarg, s) \<and>
        set_partial_words_nif n [Resource obj, x] s = Some (Raise_badarg, s) \<and>
        accept_waveform_nif n [Resource obj, x] s = Some (Raise_badarg, s) \<and>
        get_result_nif n [Resource obj] s = Some (Raise_badarg, s) \<and>
        get_partial_result_nif n [Resource obj] s = Some (Raise_badarg, s) \<and>
        get_final_result_nif n [Resource obj] s = Some (Raise_badarg, s) \<and>
        reset_recognizer_nif n [Resource obj] s = Some (Raise_badarg, s)) \<and>
     (heap s ! obj = RecognizerResource p \<longrightarrow>
        find_word_nif n [Resource obj, x] s = Some (Raise_badarg, s) \<and>
        create_recognizer_nif n [Resource obj, x] s = Some (Raise_badarg, s)) \<and>
     Raise_badarg \<noteq> Return (make_error ''model_load_failed'') \<and>
     Raise_badarg \<noteq> Return (make_error ''recognizer_creation_failed'')"
  by (simp add: set_max_alternatives_nif_def set_words_nif_def set_partial_words_nif_def
      accept_waveform_nif_def get_result_nif_def get_partial_result_nif_def
      get_final_result_nif_def reset_recognizer_nif_def find_word_nif_def
      create_recognizer_nif_def arg_simps get_resource_model get_resource_recognizer
      enif_make_badarg_def)

theorem handle_kind_confusion_witness:
  "accept_waveform_nif demo_native [Resource 0, Binary [0, 0]] demo_state
     = Some (Raise_badarg, demo_state) \<and>
   get_result_nif demo_native [Resource 0] demo_state = Some (Raise_badarg, demo_state) \<and>
   find_word_nif demo_native [Resource 1, Binary [104, 105]] demo_state
     = Some (Raise_badarg, demo_state) \<and>
   create_recognizer_nif demo_native [Resource 1, Float 1] demo_state
     = Some (Raise_badarg, demo_state)"
  using
    handle_kind_confusion [where obj = 0 and s = demo_state and p = 1 and n = demo_native
      and x = "Binary [0, 0]"]
    handle_kind_confusion [where obj = 1 and s = demo_state and p = 2 and n = demo_native
      and x = "Binary [104, 105]"]
    handle_kind_confusion [where obj = 1 and s = demo_state and p = 2 and n = demo_native
      and x = "Float 1"]
  by (simp add: demo_state_def)

subsection \<open>Null from a native constructor\<close>

text \<open>
  C4. With \<open>(p, e)\<close> what the engine's model constructor returns on the marshalled path:
  if \<open>p\<close> is null \<open>load_model\<close> returns \<open>{error, model_load_failed}\<close> and allocates
  nothing; otherwise it returns \<open>{ok, Handle}\<close> where the handle is the address of a new
  resource object, allocated behind all existing ones, that holds \<open>p\<close>. The same holds of
  \<open>create_recognizer\<close>, given a Model handle and a float, with
  \<open>{error, recognizer_creation_failed}\<close> and a new Recognizer resource.
\<close>

theorem constructor_null_or_handle:
  "(length path < 1024 \<longrightarrow>
    vosk_model_new n (engine s) (path @ 0 # drop (Suc (length path)) (local_array s 1024))
      = (p, e) \<longrightarrow>
    load_model_nif n [Binary path] s =
      (if p = NULL
       then Some (Return (Tuple [Atom ''error'', Atom ''model_load_failed'']),
              called (Vosk_model_new
                (path @ 0 # drop (Suc (length path)) (local_array s 1024))) e s)
       else Some (Return (Tuple [Atom ''ok'', Resource (length (heap s))]),
              (called (Vosk_model_new
                (path @ 0 # drop (Suc (length path)) (local_array s 1024))) e s)
                \<lparr>heap := heap s @ [ModelResource p]\<rparr>))) \<and>
   (obj < length (heap s) \<longrightarrow> heap s ! obj = ModelResource m \<longrightarrow>
    vosk_recognizer_new n (engine s) m (float_of_double n rate) = (r, e') \<longrightarrow>
    create_recognizer_nif n [Resource obj, Float rate] s =
      (if r = NULL
       then Some (Return (Tuple [Atom ''error'', Atom ''recognizer_creation_failed'']),
              called (Vosk_recognizer_new m (float_of_double n rate)) e' s)
       else Some (Return (Tuple [Atom ''ok'', Resource (length (heap s))]),
              (called (Vosk_recognizer_new m (float_of_double n rate)) e' s)
                \<lparr>heap := heap s @ [RecognizerResource r]\<rparr>)))"
  by (simp add: load_model_run create_recognizer_run)

theorem constructor_null_or_handle_witness:
  "(\<exists>s'. load_model_nif demo_native [Binary []] demo_state
       = Some (Return (Tuple [Atom ''error'', Atom ''model_load_failed'']), s')
       \<and> heap s' = heap demo_state) \<and>
   (\<exists>s'. load_model_nif demo_native [Binary [47, 109]] demo_state
       = Some (Return (Tuple [Atom ''ok'', Resource 2]), s')
       \<and> heap s' = [ModelResource 1, RecognizerResource 2, ModelResource 3]) \<and>
   (\<exists>s'. create_recognizer_nif demo_native [Resource 0, Float 0] demo_state
       = Some (Return (Tuple [Atom ''error'', Atom ''recognizer_creation_failed'']), s')
       \<and> heap s' = heap demo_state) \<and>
   (\<exists>s'. create_recognizer_nif demo_native [Resource 0, Float 0x40CF400000000000]
        demo_state
       = Some (Return (Tuple [Atom ''ok'', Resource 2]), s')
       \<and> heap s' = [ModelResource 1, RecognizerResource 2, RecognizerResource 3])"
  using
    constructor_null_or_handle [where path = "[]" and n = demo_native and s = demo_state
      and p = NULL and e = 2 and obj = 0 and m = 1 and rate = 0 and r = NULL and e' = 2]
    constructor_null_or_handle [where path = "[47, 109]" and n = demo_native
      and s = demo_state and p = 3 and e = 3 and obj = 0 and m = 1
      and rate = "0x40CF400000000000"
      and r = 3 and e' = 3]
  by (simp add: demo_state_def demo_native_def demo_float_of_double_def NULL_def c_str_def
      called_def)

subsection \<open>No operation is left without a result\<close>

text \<open>
  C5, as amended. Every entry of the table of exported functions, called with as many
  arguments as its arity and any terms as arguments, in any state and against any engine,
  returns: the result is defined (no store outside a local array, no read through an
  unresolved handle) and is one of the documented values: \<open>ok\<close>, an integer, a string,
  \<open>{ok, Handle}\<close>, a tagged failure or the badarg exception; and whenever it is badarg the
  state is unchanged, so nothing was dispatched to the engine. The path of \<open>load_model\<close>
  and the word of \<open>find_word\<close> are length-validated: at or over 1024 and 256 bytes the
  operation raises badarg. Every handle is resolved first: when \<open>enif_get_resource\<close> fails
  for the expected type, each of the ten operations that take a handle raises badarg. The
  audio buffer of \<open>accept_waveform\<close> is not length-validated: with a Recognizer handle a
  binary of any length is handed to the engine.
\<close>

theorem every_operation_returns_validated:
  "(f \<in> set nif_funcs \<longrightarrow> length argv = arity f \<longrightarrow>
      (\<exists>r s'. call_fptr (fptr f) n argv s = Some (r, s') \<and> documented_result r
         \<and> (r = Raise_badarg \<longrightarrow> s' = s))) \<and>
   (1024 \<le> length path \<longrightarrow> load_model_nif n [Binary path] s = Some (Raise_badarg, s)) \<and>
   (256 \<le> length word \<longrightarrow> find_word_nif n [h, Binary word] s = Some (Raise_badarg, s)) \<and>
   (enif_get_resource s h MODEL_TYPE = None \<longrightarrow>
      find_word_nif n [h, x] s = Some (Raise_badarg, s) \<and>
      create_recognizer_nif n [h, x] s = Some (Raise_badarg, s)) \<and>
   (enif_get_resource s h RECOGNIZER_TYPE = None \<longrightarrow>
      set_max_alternatives_nif n [h, x] s = Some (Raise_badarg, s) \<and>
      set_words_nif n [h, x] s = Some (Raise_badarg, s) \<and>
      set_partial_words_nif n [h, x] s = Some (Raise_badarg, s) \<and>
      accept_waveform_nif n [h, x] s = Some (Raise_badarg, s) \<and>
      get_result_nif n [h] s = Some (Raise_badarg, s) \<and>
      get_partial_result_nif n [h] s = Some (Raise_badarg, s) \<and>
      get_final_result_nif n [h] s = Some (Raise_badarg, s) \<and>
      reset_recognizer_nif n [h] s = Some (Raise_badarg, s)) \<and>
   (obj < length (heap s) \<longrightarrow> heap s ! obj = RecognizerResource p \<longrightarrow>
      (\<exists>r s' len. accept_waveform_nif n [Resource obj, Binary audio] s = Some (Return r, s')
         \<and> calls s' = calls s @ [Vosk_recognizer_accept_waveform p audio len]))"
  using table_entry_checked [of f argv n s] load_model_too_long [of path n s]
    find_word_too_long [of word n h s] unresolved_model_handle [of s h n x]
    unresolved_recognizer_handle [of s h n x] audio_forwarded [of obj s p n audio]
  by blast

theorem every_operation_returns_validated_witness:
  "(\<exists>r s'. call_fptr Find_word_nif demo_native [Resource 0, Binary [104, 105]] demo_state
        = Some (r, s') \<and> documented_result r \<and> (r = Raise_badarg \<longrightarrow> s' = demo_state)) \<and>
   load_model_nif demo_native [Binary (replicate 1024 47)] demo_state
     = Some (Raise_badarg, demo_state) \<and>
   find_word_nif demo_native [Resource 0, Binary (replicate 256 97)] demo_state
     = Some (Raise_badarg, demo_state) \<and>
   create_recognizer_nif demo_native [Resource 1, Float 1] demo_state
     = Some (Raise_badarg, demo_state) \<and>
   get_result_nif demo_native [Resource 0] demo_state = Some (Raise_badarg, demo_state) \<and>
   reset_recognizer_nif demo_native [Atom ''rec''] demo_state
     = Some (Raise_badarg, demo_state) \<and>
   (\<exists>r s' len. accept_waveform_nif demo_native [Resource 1, Binary [1, 0]] demo_state
        = Some (Return r, s')
      \<and> calls s' = [Vosk_recognizer_accept_waveform 2 [1, 0] len])"
proof -
  have entry:
    "\<lparr>name = ''find_word'', arity = 2, fptr = Find_word_nif, flags = 0\<rparr> \<in> set nif_funcs"
    by (simp add: nif_funcs_def)
  have m: "enif_get_resource demo_state (Resource 1) MODEL_TYPE = None"
    and r: "enif_get_resource demo_state (Resource 0) RECOGNIZER_TYPE = None"
    and a: "enif_get_resource demo_state (Atom ''rec'') RECOGNIZER_TYPE = None"
    by (simp_all add: enif_get_resource_def demo_state_def)
  show ?thesis
    using entry m r a
      every_operation_returns_validated [where n = demo_native and s = demo_state
        and f = "\<lparr>name = ''find_word'', arity = 2, fptr = Find_word_nif, flags = 0\<rparr>"
        and argv = "[Resource 0, Binary [104, 105]]" and path = "replicate 1024 47"
        and word = "replicate 256 97" and h = "Resource 0" and x = "Float 1"
        and obj = 1 and p = 2 and audio = "[1, 0]"]
      every_operation_returns_validated [where n = demo_native and s = demo_state
        and h = "Resource 1" and x = "Float 1"]
      every_operation_returns_validated [where n = demo_native and s = demo_state
        and h = "Atom ''rec''"]
    by (simp add: demo_state_def)
qed

text \<open>
  The claim C5 as first stated, that every boundary buffer is length-validated before
  native dispatch, fails on the audio buffer: \<open>accept_waveform\<close> puts no bound on its
  binary. A binary of \<open>2 ^ 31\<close> bytes is not refused; it reaches the engine, with a length
  argument that reads as \<open>- 2 ^ 31\<close>.
\<close>

theorem audio_buffer_not_length_validated:
  "accept_waveform_nif demo_native [Resource 1, Binary (replicate (2 ^ 31) 0)] demo_state =
     Some (Return (Integer 1),
           called (Vosk_recognizer_accept_waveform 2 (replicate (2 ^ 31) 0) 2147483648)
             2 demo_state) \<and>
   sint (2147483648 :: cint) = - 2147483648 \<and>
   length (replicate (2 ^ 31) (0 :: byte)) = 2147483648"
proof -
  have "vosk_recognizer_accept_waveform demo_native (engine demo_state) 2
          (replicate (2 ^ 31) 0) (of_nat (length (replicate (2 ^ 31) (0 :: byte)))) = (1, 2)"
    by (simp add: demo_native_def demo_state_def)
  from accept_waveform_run [where s = demo_state and obj = 1 and p = 2, OF _ _ this]
  show ?thesis
    by (simp add: demo_state_def)
qed

subsection \<open>The status of waveform ingestion\<close>

text \<open>
  C6. Given a handle to a Recognizer resource holding \<open>p\<close> and a binary, \<open>accept_waveform\<close>
  calls the engine once, on \<open>p\<close>, the binary's bytes and the binary's size converted to
  \<open>int\<close>, and returns the integer the engine returned, whatever it is. For a binary under
  \<open>2 ^ 31\<close> bytes the converted size is the size.
\<close>

theorem accept_waveform_passes_status:
  "obj < length (heap s) \<Longrightarrow> heap s ! obj = RecognizerResource p \<Longrightarrow>
   vosk_recognizer_accept_waveform n (engine s) p audio (of_nat (length audio)) = (r, e) \<Longrightarrow>
     accept_waveform_nif n [Resource obj, Binary audio] s =
       Some (Return (Integer (sint r)),
             called (Vosk_recognizer_accept_waveform p audio (of_nat (length audio))) e s) \<and>
     (length audio < 2 ^ 31 \<longrightarrow> sint (of_nat (length audio) :: cint) = int (length audio))"
  by (simp add: accept_waveform_run sint_cint_of_nat)

theorem accept_waveform_passes_status_witness:
  "accept_waveform_nif demo_native [Resource 1, Binary [1, 0, 255, 127]] demo_state =
     Some (Return (Integer 1),
           called (Vosk_recognizer_accept_waveform 2 [1, 0, 255, 127] 4) 2 demo_state) \<and>
   accept_waveform_nif demo_native [Resource 1, Binary []] demo_state =
     Some (Return (Integer 0),
           called (Vosk_recognizer_accept_waveform 2 [] 0) 2 demo_state) \<and>
   accept_waveform_nif
       (demo_native\<lparr>vosk_recognizer_accept_waveform := (\<lambda>e p data len. (- 1, e))\<rparr>)
       [Resource 1, Binary []] demo_state =
     Some (Return (Integer (- 1)),
           called (Vosk_recognizer_accept_waveform 2 [] 0) 2 demo_state)"
  using
    accept_waveform_passes_status [where obj = 1 and s = demo_state and p = 2
      and n = demo_native and audio = "[1, 0, 255, 127]" and r = 1 and e = 2]
    accept_waveform_passes_status [where obj = 1 and s = demo_state and p = 2
      and n = demo_native and audio = "[]" and r = 0 and e = 2]
    accept_waveform_passes_status [where obj = 1 and s = demo_state and p = 2
      and n = "demo_native\<lparr>vosk_recognizer_accept_waveform := (\<lambda>e p data len. (- 1, e))\<rparr>"
      and audio = "[]" and r = "- 1" and e = 2]
  by (simp add: demo_state_def demo_native_def)

subsection \<open>Where the operations run\<close>

text \<open>
  C7. The table exports twelve functions. The entry named \<open>accept_waveform\<close>, which points
  to \<open>accept_waveform_nif\<close>, is flagged as a CPU-bound dirty job and so runs on the dirty
  CPU scheduler pool; every other entry has flags 0 and runs on the calling scheduler.
\<close>

theorem only_accept_waveform_is_dirty:
  "length nif_funcs = 12 \<and>
   (\<forall>f \<in> set nif_funcs.
      runs_on f = (if name f = ''accept_waveform'' then Dirty_cpu_scheduler
                   else Calling_scheduler)) \<and>
   (\<exists>f \<in> set nif_funcs. name f = ''accept_waveform'' \<and> fptr f = Accept_waveform_nif)"
  by (simp add: nif_funcs_def runs_on_def ERL_NIF_DIRTY_JOB_CPU_BOUND_def
      ERL_NIF_DIRTY_JOB_IO_BOUND_def)

theorem only_accept_waveform_is_dirty_witness:
  "runs_on \<lparr>name = ''accept_waveform'', arity = 2, fptr = Accept_waveform_nif,
      flags = ERL_NIF_DIRTY_JOB_CPU_BOUND\<rparr> = Dirty_cpu_scheduler \<and>
   runs_on \<lparr>name = ''set_words'', arity = 2, fptr = Set_words_nif, flags = 0\<rparr>
     = Calling_scheduler"
proof -
  have "\<lparr>name = ''accept_waveform'', arity = 2, fptr = Accept_waveform_nif,
      flags = ERL_NIF_DIRTY_JOB_CPU_BOUND\<rparr> \<in> set nif_funcs"
    and "\<lparr>name = ''set_words'', arity = 2, fptr = Set_words_nif, flags = 0\<rparr>
      \<in> set nif_funcs"
    by (simp_all add: nif_funcs_def)
  with only_accept_waveform_is_dirty show ?thesis
    by fastforce
qed

subsection \<open>The log level at load\<close>

text \<open>
  C8. When the load argument is not an integer term, \<open>load\<close> calls the engine's log-level
  setter with \<open>-1\<close>, the silent level. When it is an integer within the range of \<open>int\<close>,
  \<open>load\<close> calls the setter with that integer. The call is logged and applied to the
  engine's state.
\<close>

theorem load_sets_log_level:
  "((\<forall>i. load_info \<noteq> Integer i) \<longrightarrow>
      snd (load n load_info om orc s) = call_set_log_level n (- 1) s) \<and>
   (load_info = Integer i \<longrightarrow> - (2 ^ 31) \<le> i \<longrightarrow> i < 2 ^ 31 \<longrightarrow>
      snd (load n load_info om orc s) = call_set_log_level n (word_of_int i) s
      \<and> sint (word_of_int i :: cint) = i) \<and>
   calls (call_set_log_level n level s) = calls s @ [Vosk_set_log_level level] \<and>
   engine (call_set_log_level n level s) = vosk_set_log_level n (engine s) level"
  by (cases load_info)
    (simp_all add: load_run enif_get_int_def call_set_log_level_def called_def
      sint_cint_of_int)

theorem load_sets_log_level_witness:
  "calls (snd (load demo_native (Atom ''nil'') (Some MODEL_TYPE) (Some RECOGNIZER_TYPE)
      demo_state)) = [Vosk_set_log_level (- 1)] \<and>
   calls (snd (load demo_native (Integer 0) (Some MODEL_TYPE) (Some RECOGNIZER_TYPE)
      demo_state)) = [Vosk_set_log_level 0] \<and>
   calls (snd (load demo_native (Integer (- 3)) (Some MODEL_TYPE) (Some RECOGNIZER_TYPE)
      demo_state)) = [Vosk_set_log_level (- 3)]"
  using
    load_sets_log_level [where load_info = "Atom ''nil''" and n = demo_native
      and om = "Some MODEL_TYPE" and orc = "Some RECOGNIZER_TYPE" and s = demo_state
      and level = "- 1"]
    load_sets_log_level [where load_info = "Integer 0" and i = 0 and n = demo_native
      and om = "Some MODEL_TYPE" and orc = "Some RECOGNIZER_TYPE" and s = demo_state
      and level = 0]
    load_sets_log_level [where load_info = "Integer (- 3)" and i = "- 3" and n = demo_native
      and om = "Some MODEL_TYPE" and orc = "Some RECOGNIZER_TYPE" and s = demo_state
      and level = "- 3"]
  by (simp add: demo_state_def)

subsection \<open>The C string that reaches the engine\<close>

text \<open>
  C9. For a path under 1024 bytes \<open>load_model\<close> is not refused, whatever the bytes are:
  the array it passes to the engine's constructor has 1024 bytes and starts with the bytes
  of the path followed by a zero byte. The C string in that array, read up to the first
  zero byte, is the path up to its own first zero byte: the whole path if it has none, a
  proper prefix otherwise. The same holds of \<open>find_word\<close> with a Model handle, a word under
  256 bytes and an array of 256 bytes.
\<close>

theorem forwarded_c_string:
  "(length path < 1024 \<longrightarrow>
      (\<exists>r s' rest. load_model_nif n [Binary path] s = Some (Return r, s')
         \<and> calls s' = calls s @ [Vosk_model_new (path @ 0 # rest)]
         \<and> length (path @ 0 # rest) = 1024
         \<and> c_str (path @ 0 # rest) = takeWhile (\<lambda>b. b \<noteq> 0) path)) \<and>
   (length word < 256 \<longrightarrow> obj < length (heap s) \<longrightarrow> heap s ! obj = ModelResource p \<longrightarrow>
      (\<exists>r s' rest. find_word_nif n [Resource obj, Binary word] s = Some (Return r, s')
         \<and> calls s' = calls s @ [Vosk_model_find_word p (word @ 0 # rest)]
         \<and> length (word @ 0 # rest) = 256
         \<and> c_str (word @ 0 # rest) = takeWhile (\<lambda>b. b \<noteq> 0) word))"
proof (intro conjI impI)
  let ?rest = "drop (Suc (length path)) (local_array s 1024)"
  assume short: "length path < 1024"
  obtain q e where "vosk_model_new n (engine s) (path @ 0 # ?rest) = (q, e)"
    by (cases "vosk_model_new n (engine s) (path @ 0 # ?rest)")
  from load_model_run [OF short this]
  have "\<exists>r s'. load_model_nif n [Binary path] s = Some (Return r, s')
          \<and> calls s' = calls s @ [Vosk_model_new (path @ 0 # ?rest)]"
    by (cases "q = NULL") (simp_all add: calls_called)
  moreover from short have "length (path @ 0 # ?rest) = 1024"
    by (simp add: length_local_array)
  moreover have "c_str (path @ 0 # ?rest) = takeWhile (\<lambda>b. b \<noteq> 0) path"
    by (simp add: c_str_terminated) (simp add: c_str_def)
  ultimately show "\<exists>r s' rest. load_model_nif n [Binary path] s = Some (Return r, s')
         \<and> calls s' = calls s @ [Vosk_model_new (path @ 0 # rest)]
         \<and> length (path @ 0 # rest) = 1024
         \<and> c_str (path @ 0 # rest) = takeWhile (\<lambda>b. b \<noteq> 0) path"
    by blast
next
  let ?rest = "drop (Suc (length word)) (local_array s 256)"
  assume short: "length word < 256" and obj: "obj < length (heap s)"
    and m: "heap s ! obj = ModelResource p"
  obtain r e where "vosk_model_find_word n (engine s) p (word @ 0 # ?rest) = (r, e)"
    by (cases "vosk_model_find_word n (engine s) p (word @ 0 # ?rest)")
  from find_word_run [OF obj m short this]
  have "\<exists>r s'. find_word_nif n [Resource obj, Binary word] s = Some (Return r, s')
          \<and> calls s' = calls s @ [Vosk_model_find_word p (word @ 0 # ?rest)]"
    by (simp add: calls_called)
  moreover from short have "length (word @ 0 # ?rest) = 256"
    by (simp add: length_local_array)
  moreover have "c_str (word @ 0 # ?rest) = takeWhile (\<lambda>b. b \<noteq> 0) word"
    by (simp add: c_str_terminated) (simp add: c_str_def)
  ultimately show "\<exists>r s' rest. find_word_nif n [Resource obj, Binary word] s
           = Some (Return r, s')
         \<and> calls s' = calls s @ [Vosk_model_find_word p (word @ 0 # rest)]
         \<and> length (word @ 0 # rest) = 256
         \<and> c_str (word @ 0 # rest) = takeWhile (\<lambda>b. b \<noteq> 0) word"
    by blast
qed

theorem forwarded_c_string_witness:
  "(\<exists>r s' rest. load_model_nif demo_native [Binary [109, 0, 47, 120]] demo_state
        = Some (Return r, s')
      \<and> calls s' = [Vosk_model_new ([109, 0, 47, 120] @ 0 # rest)]
      \<and> length rest = 1019
      \<and> c_str ([109, 0, 47, 120] @ 0 # rest) = [109]) \<and>
   (\<exists>r s' rest. find_word_nif demo_native [Resource 0, Binary [104, 105]] demo_state
        = Some (Return r, s')
      \<and> calls s' = [Vosk_model_find_word 1 ([104, 105] @ 0 # rest)]
      \<and> length rest = 253
      \<and> c_str ([104, 105] @ 0 # rest) = [104, 105])"
  using forwarded_c_string [where path = "[109, 0, 47, 120]" and n = demo_native
      and s = demo_state and word = "[104, 105]" and obj = 0 and p = 1]
  by (simp add: demo_state_def)

subsection \<open>The sample rate\<close>

text \<open>
  C10. \<open>create_recognizer\<close> raises badarg, leaving the state unchanged, whenever its
  second argument is not a float term, an integer term included and whatever the first
  argument is. Given a Model handle and a float \<open>d\<close>, it calls the engine's recognizer
  constructor on the stored model pointer and on \<open>d\<close> converted to \<open>float\<close>.
\<close>

theorem sample_rate_must_be_float:
  "((\<forall>d. rate \<noteq> Float d) \<longrightarrow> create_recognizer_nif n [m, rate] s = Some (Raise_badarg, s)) \<and>
   (obj < length (heap s) \<longrightarrow> heap s ! obj = ModelResource p \<longrightarrow>
      (\<exists>r s'. create_recognizer_nif n [Resource obj, Float d] s = Some (Return r, s')
         \<and> calls s' = calls s @ [Vosk_recognizer_new p (float_of_double n d)]
         \<and> engine s' = snd (vosk_recognizer_new n (engine s) p (float_of_double n d))))"
proof (intro conjI impI)
  assume "\<forall>d. rate \<noteq> Float d"
  then have "enif_get_double rate = None"
    by (cases rate) (simp_all add: enif_get_double_def)
  then show "create_recognizer_nif n [m, rate] s = Some (Raise_badarg, s)"
    by (simp add: create_recognizer_nif_def arg_simps enif_make_badarg_def
        split: option.split)
next
  assume obj: "obj < length (heap s)" and m: "heap s ! obj = ModelResource p"
  obtain r e where new: "vosk_recognizer_new n (engine s) p (float_of_double n d) = (r, e)"
    by (cases "vosk_recognizer_new n (engine s) p (float_of_double n d)")
  from create_recognizer_run [OF obj m new] new
  show "\<exists>r s'. create_recognizer_nif n [Resource obj, Float d] s = Some (Return r, s')
         \<and> calls s' = calls s @ [Vosk_recognizer_new p (float_of_double n d)]
         \<and> engine s' = snd (vosk_recognizer_new n (engine s) p (float_of_double n d))"
    by (cases "r = NULL") (simp_all add: called_def)
qed

theorem sample_rate_must_be_float_witness:
  "create_recognizer_nif demo_native [Resource 0, Integer 16000] demo_state
     = Some (Raise_badarg, demo_state) \<and>
   (\<exists>r s'. create_recognizer_nif demo_native [Resource 0, Float 0x40CF400000000000]
        demo_state = Some (Return r, s')
      \<and> calls s' = [Vosk_recognizer_new 1 0x467A0000] \<and> engine s' = 3)"
  using sample_rate_must_be_float [where rate = "Integer 16000" and n = demo_native
      and m = "Resource 0" and s = demo_state and obj = 0 and p = 1
      and d = "0x40CF400000000000"]
  by (simp add: demo_state_def demo_native_def demo_float_of_double_def)

end
